theory Spec2Isabelle
  imports Complex_Main
begin

section \<open>Data model\<close>

text \<open>
  A cell of a pandas frame of dtype object: a text (\<open>Str\<close>), a number (\<open>Num\<close>, the
  floating-point value idealised as a real) or the missing-value marker (\<open>NaN\<close>).
  A time stamp is a count of nanoseconds, or \<open>NaT\<close> (pandas' "not a time").
\<close>

datatype cell = Str string | Num real | NaN

datatype time = NaT | Timestamp int

text \<open>
  The exceptions the code can end with. \<open>ReadError\<close> stands for whatever the file reader
  raises on a file it cannot parse. \<open>NotModelled\<close> marks the frames on which a label-based
  access of pandas meets a label that occurs twice (it then returns a frame instead of a
  series, or aligns on a duplicated label); what pandas does from there on is not traced by
  this development, and no theorem below speaks about it.
\<close>

datatype error =
  IndexError | KeyError | ValueError | TypeError | UnboundLocalError | ReadError | NotModelled

text \<open>A time-indexed table: the labels of its value columns, and one entry per row.\<close>

record 't table =
  labels :: "string list"
  entries :: "('t \<times> cell list) list"

definition hour :: int where
  "hour = 3600000000000"

definition and_then :: "error + 'a \<Rightarrow> ('a \<Rightarrow> error + 'b) \<Rightarrow> error + 'b" where
  "and_then m f = (case m of Inl e \<Rightarrow> Inl e | Inr x \<Rightarrow> f x)"

section \<open>Reading the file (tools.py, lines 38 to 44)\<close>

definition endswith :: "string \<Rightarrow> string \<Rightarrow> bool" where
  "endswith s suffix = (length suffix \<le> length s \<and> drop (length s - length suffix) s = suffix)"

text \<open>
  The content of a file is the grid of cells its reader sees, row by row, or \<open>None\<close> when
  the reader cannot parse it.
  \<open>pd.read_excel(file_path, sheet_name = 0)\<close> takes the first row as the column header, so
  the rows of the frame are the rows after it (the header is overwritten at line 49 and
  never read before).
\<close>

definition read_excel :: "cell list list option \<Rightarrow> error + cell list list" where
  "read_excel content = (case content of None \<Rightarrow> Inl ReadError | Some grid \<Rightarrow> Inr (drop 1 grid))"

text \<open>
  \<open>pd.read_csv(file_path, skiprows = [0], header = None)\<close>: the first row is skipped and all
  others are rows of the frame; with no row left pandas raises EmptyDataError.
\<close>

definition read_csv :: "cell list list option \<Rightarrow> error + cell list list" where
  "read_csv content =
     (case content of
        None \<Rightarrow> Inl ReadError
      | Some grid \<Rightarrow> if drop 1 grid = [] then Inl ReadError else Inr (drop 1 grid))"

text \<open>
  Lines 38 to 44. An exception of \<open>read_excel\<close> propagates. An exception of \<open>read_csv\<close> is
  caught by the bare \<open>except\<close>, whose body builds an IOError without raising it: the name
  \<open>dataframe\<close> stays unbound and line 48 raises UnboundLocalError.
\<close>

definition load :: "string \<Rightarrow> cell list list option \<Rightarrow> error + cell list list" where
  "load file_path content =
     (if endswith file_path ''xlsx'' \<or> endswith file_path ''xls'' then read_excel content
      else (case read_csv content of
              Inr dataframe \<Rightarrow> Inr dataframe
            | Inl _ \<Rightarrow> Inl UnboundLocalError))"

section \<open>Header and first data row (lines 48 to 51)\<close>

text \<open>A row shorter than the frame is padded with the missing-value marker.\<close>

definition cell_at :: "cell list \<Rightarrow> nat \<Rightarrow> cell" where
  "cell_at r j = (if j < length r then r ! j else NaN)"

text \<open>\<open>df[mask].index[0]\<close>: the position of the first row the mask selects.\<close>

fun first_index :: "('a \<Rightarrow> bool) \<Rightarrow> 'a list \<Rightarrow> nat option" where
  "first_index P [] = None"
| "first_index P (x # xs) = (if P x then Some 0 else map_option Suc (first_index P xs))"

definition label_positions :: "cell \<Rightarrow> cell list \<Rightarrow> nat list" where
  "label_positions l ls = filter (\<lambda>j. ls ! j = l) [0..<length ls]"

text \<open>
  Lines 48 to 51: the header row is the first row whose first cell is the text TIMESTAMP;
  the data starts at the first row whose RECORD cell is the text 0; the rows before it are
  dropped. The result is the header row and the remaining rows.
\<close>

definition locate_data :: "cell list list \<Rightarrow> error + (cell list \<times> cell list list)" where
  "locate_data dataframe =
     (case first_index (\<lambda>r. cell_at r 0 = Str ''TIMESTAMP'') dataframe of
        None \<Rightarrow> Inl IndexError
      | Some header \<Rightarrow>
          let columns = dataframe ! header in
          (case label_positions (Str ''RECORD'') columns of
             [] \<Rightarrow> Inl KeyError
           | [j] \<Rightarrow>
               (case first_index (\<lambda>r. cell_at r j = Str ''0'') dataframe of
                  None \<Rightarrow> Inl IndexError
                | Some start_data \<Rightarrow> Inr (columns, drop start_data dataframe))
           | _ \<Rightarrow> Inl NotModelled))"

section \<open>Time column and the two subsets (lines 54 to 68)\<close>

definition drop_cols :: "cell list" where
  "drop_cols = [Str ''batt_volt_Avg'', Str ''RECORD'', Str ''TIMESTAMP'']"

text \<open>
  Line 54: \<open>pd.to_datetime\<close> on the TIMESTAMP column. The parser is a parameter: it gives
  \<open>None\<close> on a cell at which pandas raises.
\<close>

definition time_column ::
  "(cell \<Rightarrow> time option) \<Rightarrow> cell list \<Rightarrow> cell list list \<Rightarrow> error + time list" where
  "time_column to_datetime columns rows =
     (case label_positions (Str ''TIMESTAMP'') columns of
        [] \<Rightarrow> Inl KeyError
      | [j] \<Rightarrow>
          (case those (map (\<lambda>r. to_datetime (cell_at r j)) rows) of
             None \<Rightarrow> Inl ValueError
           | Some ts \<Rightarrow> Inr ts)
      | _ \<Rightarrow> Inl NotModelled)"

text \<open>
  Lines 55 to 57: the new Time column replaces a column of that name and moves to the
  front; \<open>drop\<close> raises KeyError when one of \<open>drop_cols\<close> is no label of the frame. The
  result is the positions of the columns that stay beside Time.
\<close>

definition kept_columns :: "cell list \<Rightarrow> error + nat list" where
  "kept_columns columns =
     (if length (label_positions (Str ''Time'') columns) > 1 then Inl NotModelled
      else if \<exists>l \<in> set drop_cols. l \<notin> set columns then Inl KeyError
      else Inr (filter (\<lambda>j. columns ! j \<notin> set drop_cols \<and> columns ! j \<noteq> Str ''Time'')
                  [0..<length columns]))"

text \<open>\<open>filter(regex = '^redox')\<close>: the labels that are texts starting with the prefix.\<close>

fun startswith :: "string \<Rightarrow> cell \<Rightarrow> bool" where
  "startswith prefix (Str s) = (take (length prefix) s = prefix)"
| "startswith prefix _ = False"

fun label_name :: "cell \<Rightarrow> string" where
  "label_name (Str s) = s"
| "label_name _ = []"

text \<open>Lines 60 to 63: the columns of one prefix, beside the Time column.\<close>

definition subset_of ::
  "string \<Rightarrow> nat list \<Rightarrow> cell list \<Rightarrow> time list \<Rightarrow> cell list list \<Rightarrow> time table" where
  "subset_of prefix kept columns time_col rows =
     (let js = filter (\<lambda>j. startswith prefix (columns ! j)) kept in
      \<lparr>labels = map (\<lambda>j. label_name (columns ! j)) js,
       entries = zip time_col (map (\<lambda>r. map (cell_at r) js) rows)\<rparr>)"

text \<open>
  Lines 66 to 68. A dictionary is an association list; the empty one is falsy, and the
  renaming is skipped.
\<close>

definition rename_label :: "(string \<times> string) list \<Rightarrow> string \<Rightarrow> string" where
  "rename_label rename l = (case map_of rename l of Some l' \<Rightarrow> l' | None \<Rightarrow> l)"

definition rename_columns :: "(string \<times> string) list \<Rightarrow> 't table \<Rightarrow> 't table" where
  "rename_columns rename df =
     (if rename = [] then df else df\<lparr>labels := map (rename_label rename) (labels df)\<rparr>)"

section \<open>Coercion and correction (lines 71 to 77)\<close>

text \<open>
  \<open>pd.to_numeric(_, errors = 'coerce')\<close> cell by cell: a text is parsed (the parser is a
  parameter), and becomes the missing-value marker where it is no number.
\<close>

fun to_numeric :: "(string \<Rightarrow> real option) \<Rightarrow> cell \<Rightarrow> cell" where
  "to_numeric parse (Str s) = (case parse s of Some x \<Rightarrow> Num x | None \<Rightarrow> NaN)"
| "to_numeric parse (Num x) = Num x"
| "to_numeric parse NaN = NaN"

text \<open>\<open>_ + correction\<close> on coerced cells (they hold no text).\<close>

fun add_correction :: "real \<Rightarrow> cell \<Rightarrow> cell" where
  "add_correction correction (Num x) = Num (x + correction)"
| "add_correction correction c = c"

definition map_cells :: "(cell \<Rightarrow> cell) \<Rightarrow> 't table \<Rightarrow> 't table" where
  "map_cells f df = df\<lparr>entries := map (\<lambda>(t, r). (t, map f r)) (entries df)\<rparr>"

text \<open>
  The label-based steps of lines 71 to 76 are traced for a subset whose labels are distinct
  and in which Time labels the Time column and no other (the renaming can break both): the
  assignment through \<open>.loc\<close> aligns columns by label, and \<open>set_index("Time")\<close> reads the
  column by its label.
\<close>

definition labels_ok :: "(string \<times> string) list \<Rightarrow> 't table \<Rightarrow> bool" where
  "labels_ok rename df =
     ((rename = [] \<or> rename_label rename ''Time'' = ''Time'') \<and> ''Time'' \<notin> set (labels df)
      \<and> distinct (labels df))"

section \<open>Hourly index (lines 79 to 83)\<close>

text \<open>\<open>pd.date_range(first, last, freq = "h")\<close>: first, first + 1 h, ... up to last.\<close>

definition date_range :: "int \<Rightarrow> int \<Rightarrow> int list" where
  "date_range first final =
     (if final < first then []
      else map (\<lambda>k. first + int k * hour) [0..<nat ((final - first) div hour) + 1])"

definition date_range_of :: "time table \<Rightarrow> error + int list" where
  "date_range_of df =
     (case map fst (entries df) of
        [] \<Rightarrow> Inl IndexError
      | t # ts \<Rightarrow>
          (case (t, last (t # ts)) of
             (Timestamp first, Timestamp final) \<Rightarrow> Inr (date_range first final)
           | _ \<Rightarrow> Inl ValueError))"

text \<open>
  \<open>df.reindex(new_index, fill_value = np.nan)\<close>: pandas refuses an index with a duplicate
  label; a label of the new index that the table lacks gets a row of missing values.
\<close>

definition reindex :: "time table \<Rightarrow> int list \<Rightarrow> error + int table" where
  "reindex df new_index =
     (if \<not> distinct (map fst (entries df)) then Inl ValueError
      else Inr \<lparr>labels = labels df,
                entries = map (\<lambda>t. (t, case map_of (entries df) (Timestamp t) of
                                         Some r \<Rightarrow> r
                                       | None \<Rightarrow> replicate (length (labels df)) NaN))
                            new_index\<rparr>)"

section \<open>The cleaning routine\<close>

text \<open>Lines 38 to 68: the two subsets before coercion, each beside the Time column.\<close>

definition split_subsets ::
  "(cell \<Rightarrow> time option) \<Rightarrow> string \<Rightarrow> cell list list option \<Rightarrow> (string \<times> string) list \<Rightarrow>
   error + (time table \<times> time table)" where
  "split_subsets to_datetime file_path content rename =
     and_then (load file_path content) (\<lambda>dataframe.
     and_then (locate_data dataframe) (\<lambda>(columns, rows).
     and_then (time_column to_datetime columns rows) (\<lambda>time_col.
     and_then (kept_columns columns) (\<lambda>kept.
       let df_redox = rename_columns rename (subset_of ''redox'' kept columns time_col rows);
           df_temp = rename_columns rename (subset_of ''temp'' kept columns time_col rows)
       in if \<not> labels_ok rename df_redox \<or> \<not> labels_ok rename df_temp
          then Inl NotModelled
          else Inr (df_redox, df_temp)))))"

text \<open>
  Lines 71 and 75, 72 and 77: each subset is coerced when the correction is added and once
  more after \<open>set_index\<close>.
\<close>

definition coerce_redox :: "(string \<Rightarrow> real option) \<Rightarrow> real \<Rightarrow> 't table \<Rightarrow> 't table" where
  "coerce_redox parse correction df_redox =
     map_cells (to_numeric parse)
       (map_cells (\<lambda>c. add_correction correction (to_numeric parse c)) df_redox)"

definition coerce_temp :: "(string \<Rightarrow> real option) \<Rightarrow> 't table \<Rightarrow> 't table" where
  "coerce_temp parse df_temp = map_cells (to_numeric parse) (map_cells (to_numeric parse) df_temp)"

text \<open>Lines 79 to 85: both hourly ranges, then both tables reindexed.\<close>

definition hourly_reindex :: "time table \<Rightarrow> time table \<Rightarrow> error + (int table \<times> int table)" where
  "hourly_reindex df_redox df_temp =
     and_then (date_range_of df_redox) (\<lambda>date_range_redox.
     and_then (date_range_of df_temp) (\<lambda>date_range_temp.
     and_then (reindex df_redox date_range_redox) (\<lambda>df_redox.
     and_then (reindex df_temp date_range_temp) (\<lambda>df_temp.
       Inr (df_redox, df_temp)))))"

definition cleanup_redox ::
  "(cell \<Rightarrow> time option) \<Rightarrow> (string \<Rightarrow> real option) \<Rightarrow>
   string \<Rightarrow> cell list list option \<Rightarrow> real \<Rightarrow> (string \<times> string) list \<Rightarrow>
   error + (int table \<times> int table)" where
  "cleanup_redox to_datetime parse file_path content correction rename =
     and_then (split_subsets to_datetime file_path content rename) (\<lambda>(df_redox, df_temp).
       hourly_reindex (coerce_redox parse correction df_redox) (coerce_temp parse df_temp))"

section \<open>The plots: window, series and mean (lines 120 to 128 and 194 to 216)\<close>

text \<open>
  Of a plot only the lines it draws are kept: label, abscissae and ordinates. The figure,
  the axes' labels and the ticks are the charting library's.
\<close>

record line =
  label :: string
  xdata :: "int list"
  ydata :: "cell list"

text \<open>
  \<open>mask = (df.index > start_date) & (df.index <= end_date)\<close> and \<open>df[mask]\<close>. pandas parses
  the two strings (the parser is a parameter) and raises on a string that is no date.
\<close>

definition select_window ::
  "(string \<Rightarrow> int option) \<Rightarrow> int table \<Rightarrow> string \<Rightarrow> string \<Rightarrow> error + int table" where
  "select_window to_timestamp df start_date end_date =
     (case to_timestamp start_date of
        None \<Rightarrow> Inl TypeError
      | Some s \<Rightarrow>
          (case to_timestamp end_date of
             None \<Rightarrow> Inl TypeError
           | Some e \<Rightarrow> Inr (df\<lparr>entries := filter (\<lambda>(t, r). s < t \<and> t \<le> e) (entries df)\<rparr>)))"

definition name_positions :: "string \<Rightarrow> string list \<Rightarrow> nat list" where
  "name_positions node ls = filter (\<lambda>j. ls ! j = node) [0..<length ls]"

text \<open>\<open>df[node]\<close>: the column of that label, KeyError when there is none.\<close>

definition column :: "int table \<Rightarrow> string \<Rightarrow> error + cell list" where
  "column df node =
     (case name_positions node (labels df) of
        [] \<Rightarrow> Inl KeyError
      | [j] \<Rightarrow> Inr (map (\<lambda>(t, r). cell_at r j) (entries df))
      | _ \<Rightarrow> Inl NotModelled)"

text \<open>The loop \<open>for i, node in enumerate(nodes): ax.plot(df.index, df[node], label = node)\<close>.\<close>

fun plot_nodes :: "int table \<Rightarrow> string list \<Rightarrow> error + line list" where
  "plot_nodes df [] = Inr []"
| "plot_nodes df (node # nodes) =
     and_then (column df node) (\<lambda>ys.
     and_then (plot_nodes df nodes) (\<lambda>ls.
       Inr (\<lparr>label = node, xdata = map fst (entries df), ydata = ys\<rparr> # ls)))"

definition plot_redox ::
  "(string \<Rightarrow> int option) \<Rightarrow> int table \<Rightarrow> string list \<Rightarrow> string \<Rightarrow> string \<Rightarrow> error + line list" where
  "plot_redox to_timestamp df_redox redox_nodes start_date end_date =
     and_then (select_window to_timestamp df_redox start_date end_date) (\<lambda>df_redox_plot.
       plot_nodes df_redox_plot redox_nodes)"

text \<open>
  \<open>df.loc[:, temp_nodes]\<close>: for every name of the list, in its order, the columns of that
  label; KeyError when a name labels no column.
\<close>

fun loc_columns :: "string list \<Rightarrow> string list \<Rightarrow> error + nat list" where
  "loc_columns ls [] = Inr []"
| "loc_columns ls (node # nodes) =
     (case name_positions node ls of
        [] \<Rightarrow> Inl KeyError
      | js \<Rightarrow> and_then (loc_columns ls nodes) (\<lambda>ks. Inr (js @ ks)))"

text \<open>
  \<open>.mean(axis = 1)\<close> on one row, missing values skipped (pandas' default): the sum of the
  numbers over their count, and the missing-value marker when there is no number.
\<close>

fun numbers :: "cell list \<Rightarrow> real list option" where
  "numbers [] = Some []"
| "numbers (Num x # cs) = map_option (\<lambda>xs. x # xs) (numbers cs)"
| "numbers (NaN # cs) = numbers cs"
| "numbers (Str s # cs) = None"

definition row_mean :: "cell list \<Rightarrow> error + cell" where
  "row_mean cs =
     (case numbers cs of
        None \<Rightarrow> Inl TypeError
      | Some xs \<Rightarrow> Inr (if xs = [] then NaN else Num (sum_list xs / real (length xs))))"

fun row_means :: "nat list \<Rightarrow> (int \<times> cell list) list \<Rightarrow> error + cell list" where
  "row_means js [] = Inr []"
| "row_means js ((t, r) # es) =
     and_then (row_mean (map (cell_at r) js)) (\<lambda>m.
     and_then (row_means js es) (\<lambda>ms. Inr (m # ms)))"

definition plot_temp ::
  "(string \<Rightarrow> int option) \<Rightarrow> int table \<Rightarrow> string list \<Rightarrow> string \<Rightarrow> string \<Rightarrow> bool \<Rightarrow>
   error + line list" where
  "plot_temp to_timestamp df_temp temp_nodes start_date end_date mean =
     and_then (select_window to_timestamp df_temp start_date end_date) (\<lambda>df_temp.
       if mean then
         and_then (loc_columns (labels df_temp) temp_nodes) (\<lambda>js.
         and_then (row_means js (entries df_temp)) (\<lambda>mean_temp.
           if length (name_positions ''mean_temperature'' (labels df_temp)) > 1
           then Inl NotModelled
           else Inr [\<lparr>label = ''Mean temperature'',
                      xdata = map fst (entries df_temp), ydata = mean_temp\<rparr>]))
       else plot_nodes df_temp temp_nodes)"

section \<open>A logger file, for the examples\<close>

definition example_datetime :: "cell \<Rightarrow> time option" where
  "example_datetime c =
     map_of [(Str ''2024-09-01 00:00:00'', Timestamp 1725148800000000000),
             (Str ''2024-09-01 01:00:00'', Timestamp 1725152400000000000),
             (Str ''2024-09-01 01:30:00'', Timestamp 1725154200000000000),
             (Str ''2024-09-01 03:00:00'', Timestamp 1725159600000000000)] c"

definition example_number :: "string \<Rightarrow> real option" where
  "example_number s =
     map_of [(''-250.5'', -250.5), (''-251'', -251), (''18.25'', 18.25), (''18'', 18),
             (''12.9'', 12.9)] s"

definition example_head :: "cell list list" where
  "example_head =
     [[Str ''TOA5'', Str ''S9081'', Str ''CR1000X''],
      [Str ''TIMESTAMP'', Str ''RECORD'', Str ''batt_volt_Avg'', Str ''redox_raw_Avg(1)'',
       Str ''temp_C_Avg(1)''],
      [Str ''TS'', Str ''RN'', Str ''Volts'', Str ''mV'', Str ''Deg C'']]"

definition example_rows :: "cell list list" where
  "example_rows =
     [[Str ''2024-09-01 00:00:00'', Str ''0'', Str ''12.9'', Str ''-250.5'', Str ''18.25''],
      [Str ''2024-09-01 01:00:00'', Str ''1'', Str ''12.9'', Str ''NAN'', Str ''18''],
      [Str ''2024-09-01 03:00:00'', Str ''2'', Str ''12.9'', Str ''-251'', NaN]]"

definition example_file :: "cell list list" where
  "example_file = example_head @ example_rows"

text \<open>The same logger, its second record half an hour late.\<close>

definition example_late_rows :: "cell list list" where
  "example_late_rows =
     [[Str ''2024-09-01 00:00:00'', Str ''0'', Str ''12.9'', Str ''-250.5'', Str ''18.25''],
      [Str ''2024-09-01 01:30:00'', Str ''1'', Str ''12.9'', Str ''-251'', Str ''18'']]"

definition example_late_file :: "cell list list" where
  "example_late_file = example_head @ example_late_rows"

text \<open>What the cleaning returns on the two files, with the correction 200.\<close>

definition example_redox :: "int table" where
  "example_redox =
     \<lparr>labels = [''redox_raw_Avg(1)''],
      entries = [(1725148800000000000, [Num (- 50.5)]), (1725152400000000000, [NaN]),
                 (1725156000000000000, [NaN]), (1725159600000000000, [Num (- 51)])]\<rparr>"

definition example_temp :: "int table" where
  "example_temp =
     \<lparr>labels = [''temp_C_Avg(1)''],
      entries = [(1725148800000000000, [Num 18.25]), (1725152400000000000, [Num 18]),
                 (1725156000000000000, [NaN]), (1725159600000000000, [NaN])]\<rparr>"





text \<open>Dates of the plots, and a temperature table of two nodes.\<close>

definition example_timestamp :: "string \<Rightarrow> int option" where
  "example_timestamp s =
     map_of [(''2024-09-01'', 1725148800000000000),
             (''2024-09-01 03:00:00'', 1725159600000000000)] s"


section \<open>Facts about the stages\<close>

lemma and_then_Inr [simp]: "and_then (Inr x) f = f x"
  by (simp add: and_then_def)

lemma and_then_Inl [simp]: "and_then (Inl e) f = Inl e"
  by (simp add: and_then_def)

lemma and_then_eq_Inr: "and_then m f = Inr y \<longleftrightarrow> (\<exists>x. m = Inr x \<and> f x = Inr y)"
  by (cases m) simp_all

lemma entries_rename_columns [simp]: "entries (rename_columns rn df) = entries df"
  by (simp add: rename_columns_def)

lemma entries_map_cells: "entries (map_cells f df) = map (\<lambda>(t, r). (t, map f r)) (entries df)"
  by (simp add: map_cells_def)

lemma labels_map_cells [simp]: "labels (map_cells f df) = labels df"
  by (simp add: map_cells_def)

lemma index_map_cells [simp]: "map fst (entries (map_cells f df)) = map fst (entries df)"
  by (simp add: map_cells_def case_prod_beta comp_def)

lemma map_cells_compose: "map_cells f (map_cells g df) = map_cells (\<lambda>c. f (g c)) df"
  by (simp add: map_cells_def case_prod_beta comp_def)

lemma to_numeric_idem [simp]: "to_numeric p (to_numeric p c) = to_numeric p c"
  by (cases c) (simp_all split: option.splits)

lemma to_numeric_add_correction [simp]:
  "to_numeric p (add_correction k (to_numeric p c)) = add_correction k (to_numeric p c)"
  by (cases c) (simp_all split: option.splits)

lemma coerce_redox_eq:
  "coerce_redox p k df = map_cells (\<lambda>c. add_correction k (to_numeric p c)) df"
  by (simp add: coerce_redox_def map_cells_compose)

lemma coerce_temp_eq: "coerce_temp p df = map_cells (to_numeric p) df"
  by (simp add: coerce_temp_def map_cells_compose)

lemma split_subsets_index:
  assumes "split_subsets td fp ct rn = Inr (dr, dt)"
  shows "map fst (entries dr) = map fst (entries dt)"
  using assms
  by (auto simp: split_subsets_def and_then_eq_Inr subset_of_def Let_def map_fst_zip_take
           split: if_splits)

lemma date_range_of_Inr:
  assumes "date_range_of df = Inr d"
  shows "\<exists>a b. map fst (entries df) \<noteq> [] \<and> hd (map fst (entries df)) = Timestamp a
           \<and> last (map fst (entries df)) = Timestamp b \<and> d = date_range a b"
  using assms
  by (auto simp: date_range_of_def split: list.splits time.splits if_splits)

lemma reindex_Inr:
  assumes "reindex df ni = Inr out"
  shows "distinct (map fst (entries df))" and "labels out = labels df"
    and "map fst (entries out) = ni"
    and "entries out = map (\<lambda>t. (t, case map_of (entries df) (Timestamp t) of
                                         Some r \<Rightarrow> r
                                       | None \<Rightarrow> replicate (length (labels df)) NaN)) ni"
  using assms by (auto simp: reindex_def comp_def split: if_splits)

lemma hourly_reindex_Inr:
  assumes "hourly_reindex dr dt = Inr (r, t)"
  shows "\<exists>a b a' b'. map fst (entries dr) \<noteq> [] \<and> hd (map fst (entries dr)) = Timestamp a
           \<and> last (map fst (entries dr)) = Timestamp b
           \<and> map fst (entries dt) \<noteq> [] \<and> hd (map fst (entries dt)) = Timestamp a'
           \<and> last (map fst (entries dt)) = Timestamp b'
           \<and> reindex dr (date_range a b) = Inr r \<and> reindex dt (date_range a' b') = Inr t"
proof -
  from assms obtain d1 d2 where d1: "date_range_of dr = Inr d1" and d2: "date_range_of dt = Inr d2"
    and r: "reindex dr d1 = Inr r" and t: "reindex dt d2 = Inr t"
    by (auto simp: hourly_reindex_def and_then_eq_Inr)
  from date_range_of_Inr[OF d1] date_range_of_Inr[OF d2] r t show ?thesis by blast
qed

lemma cleanup_redox_Inr:
  assumes "cleanup_redox td p fp ct k rn = Inr (r, t)"
  shows "\<exists>dr dt. split_subsets td fp ct rn = Inr (dr, dt)
           \<and> hourly_reindex (coerce_redox p k dr) (coerce_temp p dt) = Inr (r, t)"
  using assms by (auto simp: cleanup_redox_def and_then_eq_Inr)

section \<open>Facts about the hourly range\<close>

lemma hour_pos: "0 < hour" by (simp add: hour_def)

lemma length_date_range:
  "length (date_range a b) = (if b < a then 0 else nat ((b - a) div hour) + 1)"
  by (simp add: date_range_def)

lemma nth_date_range:
  "i < length (date_range a b) \<Longrightarrow> date_range a b ! i = a + int i * hour"
  by (cases "b < a") (simp_all add: date_range_def del: upt_Suc)

lemma sorted_date_range: "sorted_wrt (<) (date_range a b)"
  using hour_pos by (simp add: sorted_wrt_iff_nth_less nth_date_range)

lemma distinct_date_range: "distinct (date_range a b)"
  using sorted_date_range strict_sorted_iff by blast

lemma date_range_nonempty: "a \<le> b \<Longrightarrow> date_range a b \<noteq> []"
  by (simp add: date_range_def)

lemma hd_date_range: "a \<le> b \<Longrightarrow> hd (date_range a b) = a"
  using nth_date_range[of 0 a b] by (simp add: hd_conv_nth date_range_nonempty length_date_range)

lemma div_hour_nonneg: "a \<le> b \<Longrightarrow> 0 \<le> (b - a) div hour"
  using hour_pos by (simp add: pos_imp_zdiv_nonneg_iff)

lemma last_date_range: "a \<le> b \<Longrightarrow> last (date_range a b) = a + ((b - a) div hour) * hour"
  using nth_date_range[of "nat ((b - a) div hour)" a b] div_hour_nonneg[of a b]
  by (simp add: last_conv_nth date_range_nonempty length_date_range)

lemma last_date_range_le: "a \<le> b \<Longrightarrow> last (date_range a b) \<le> b"
proof -
  assume ab: "a \<le> b"
  have "(b - a) div hour * hour + (b - a) mod hour = b - a" by simp
  moreover have "0 \<le> (b - a) mod hour" using hour_pos by simp
  ultimately have "(b - a) div hour * hour \<le> b - a" by linarith
  then show ?thesis using ab by (simp add: last_date_range)
qed

lemma last_date_range_gt: "a \<le> b \<Longrightarrow> b < last (date_range a b) + hour"
proof -
  assume ab: "a \<le> b"
  have "(b - a) div hour * hour + (b - a) mod hour = b - a" by simp
  moreover have "(b - a) mod hour < hour" using hour_pos by simp
  ultimately have "b - a < (b - a) div hour * hour + hour" by linarith
  then show ?thesis using ab by (simp add: last_date_range)
qed

lemma last_date_range_exact:
  "a \<le> b \<Longrightarrow> (last (date_range a b) = b) = ((b - a) mod hour = 0)"
proof -
  assume ab: "a \<le> b"
  have "(b - a) div hour * hour + (b - a) mod hour = b - a" by simp
  then show ?thesis unfolding last_date_range[OF ab] by linarith
qed

section \<open>Facts about the cleaning and the plots\<close>

lemma index_coerce_redox [simp]: "map fst (entries (coerce_redox p k df)) = map fst (entries df)"
  by (simp add: coerce_redox_eq)

lemma index_coerce_temp [simp]: "map fst (entries (coerce_temp p df)) = map fst (entries df)"
  by (simp add: coerce_temp_eq)

lemma cleanup_redox_indices:
  assumes "cleanup_redox td p fp ct k rn = Inr (r, t)"
  shows "\<exists>dr dt a b. split_subsets td fp ct rn = Inr (dr, dt)
           \<and> map fst (entries dr) \<noteq> [] \<and> map fst (entries dt) = map fst (entries dr)
           \<and> distinct (map fst (entries dr))
           \<and> hd (map fst (entries dr)) = Timestamp a \<and> last (map fst (entries dr)) = Timestamp b
           \<and> reindex (coerce_redox p k dr) (date_range a b) = Inr r
           \<and> reindex (coerce_temp p dt) (date_range a b) = Inr t"
proof -
  from cleanup_redox_Inr[OF assms] obtain dr dt where
    s: "split_subsets td fp ct rn = Inr (dr, dt)" and
    h: "hourly_reindex (coerce_redox p k dr) (coerce_temp p dt) = Inr (r, t)" by blast
  have eq: "map fst (entries dt) = map fst (entries dr)"
    using split_subsets_index[OF s] by simp
  from hourly_reindex_Inr[OF h] obtain a b a' b' where
    ne: "map fst (entries dr) \<noteq> []" and
    a: "hd (map fst (entries dr)) = Timestamp a" and b: "last (map fst (entries dr)) = Timestamp b" and
    a': "hd (map fst (entries dt)) = Timestamp a'" and b': "last (map fst (entries dt)) = Timestamp b'" and
    r: "reindex (coerce_redox p k dr) (date_range a b) = Inr r" and
    t: "reindex (coerce_temp p dt) (date_range a' b') = Inr t"
    by auto
  from a a' b b' eq have "a' = a" "b' = b" by simp_all
  moreover have "distinct (map fst (entries dr))" using reindex_Inr(1)[OF r] by simp
  ultimately show ?thesis using s ne eq a b r t by blast
qed

lemma map_of_keyed: "map_of (map (\<lambda>k. (k, g k)) ks) x = (if x \<in> set ks then Some (g x) else None)"
  by (induction ks) auto

lemma map_of_reindex:
  assumes "reindex df ni = Inr out"
  shows "map_of (entries out) x =
           (if x \<in> set ni
            then Some (case map_of (entries df) (Timestamp x) of
                         Some r \<Rightarrow> r
                       | None \<Rightarrow> replicate (length (labels df)) NaN)
            else None)"
  unfolding reindex_Inr(4)[OF assms] by (rule map_of_keyed)

lemma reindex_present:
  assumes "reindex df ni = Inr out" and "x \<in> set ni" and "(Timestamp x, row) \<in> set (entries df)"
  shows "map_of (entries out) x = Some row"
proof -
  have "map_of (entries df) (Timestamp x) = Some row"
    using reindex_Inr(1)[OF assms(1)] assms(3) by simp
  then show ?thesis using map_of_reindex[OF assms(1), of x] assms(2) by simp
qed



lemma add_correction_zero [simp]: "add_correction 0 c = c"
  by (cases c) simp_all

lemma add_correction_NaN: "add_correction k NaN = NaN"
  by simp

lemma date_range_of_cong:
  "map fst (entries df) = map fst (entries df') \<Longrightarrow> date_range_of df = date_range_of df'"
  by (simp add: date_range_of_def)






lemma to_numeric_not_Str: "to_numeric p c \<noteq> Str s"
  by (cases c) (simp_all split: option.splits)

lemma add_correction_not_Str: "add_correction k (to_numeric p c) \<noteq> Str s"
  by (cases c) (simp_all split: option.splits)

lemma to_numeric_unparsable: "p s = None \<Longrightarrow> to_numeric p (Str s) = NaN"
  by simp

lemma entry_map_cells:
  "(t, row) \<in> set (entries df) \<Longrightarrow> (t, map f row) \<in> set (entries (map_cells f df))"
  by (force simp: entries_map_cells)

lemma entry_map_cellsD:
  "(t, row) \<in> set (entries (map_cells f df)) \<Longrightarrow> \<exists>row0. (t, row0) \<in> set (entries df) \<and> row = map f row0"
  by (auto simp: entries_map_cells)

lemma reindex_rows:
  assumes "reindex df ni = Inr out" and "(x, row) \<in> set (entries out)"
  shows "(Timestamp x, row) \<in> set (entries df) \<or> row = replicate (length (labels df)) NaN"
proof -
  from assms(2) have "(x, row) \<in> set (map (\<lambda>t. (t, case map_of (entries df) (Timestamp t) of
                                         Some r \<Rightarrow> r
                                       | None \<Rightarrow> replicate (length (labels df)) NaN)) ni)"
    using reindex_Inr(4)[OF assms(1)] by simp
  then have row: "row = (case map_of (entries df) (Timestamp x) of
                     Some r \<Rightarrow> r | None \<Rightarrow> replicate (length (labels df)) NaN)"
    by (simp add: image_iff)
  show ?thesis
  proof (cases "map_of (entries df) (Timestamp x)")
    case None
    with row show ?thesis by simp
  next
    case (Some r)
    with row have "map_of (entries df) (Timestamp x) = Some row" by simp
    then show ?thesis by (simp add: map_of_SomeD)
  qed
qed

lemma reindex_map_cells_no_text:
  assumes "reindex (map_cells f df) ni = Inr out" and "(x, row) \<in> set (entries out)"
    and "\<forall>c. f c \<noteq> Str s"
  shows "Str s \<notin> set row"
proof
  assume s: "Str s \<in> set row"
  have "(Timestamp x, row) \<in> set (entries (map_cells f df))
        \<or> row = replicate (length (labels (map_cells f df))) NaN"
    using assms(1,2) by (rule reindex_rows)
  then show False
  proof
    assume e: "(Timestamp x, row) \<in> set (entries (map_cells f df))"
    from entry_map_cellsD[OF e] obtain row0 where "row = map f row0" by blast
    with s have "Str s \<in> f ` set row0" by simp
    then obtain c where "f c = Str s" by (auto simp: image_iff)
    with assms(3) show False by simp
  next
    assume "row = replicate (length (labels (map_cells f df))) NaN"
    with s show False by simp
  qed
qed

lemma reindex_outcome:
  "map fst (entries df) = map fst (entries df')
   \<Longrightarrow> map_sum id (\<lambda>_. ()) (reindex df ni) = map_sum id (\<lambda>_. ()) (reindex df' ni)"
  by (simp add: reindex_def)

lemma hourly_reindex_outcome:
  assumes "map fst (entries dr) = map fst (entries dr')"
    and "map fst (entries dt) = map fst (entries dt')"
  shows "map_sum id (\<lambda>_. ()) (hourly_reindex dr dt) = map_sum id (\<lambda>_. ()) (hourly_reindex dr' dt')"
  using assms
  by (simp add: hourly_reindex_def date_range_of_cong[OF assms(1)] date_range_of_cong[OF assms(2)]
        reindex_def and_then_def split: sum.splits)

lemma cleanup_redox_outcome:
  "map_sum id (\<lambda>_. ()) (cleanup_redox td p' fp ct k' rn)
     = map_sum id (\<lambda>_. ()) (cleanup_redox td p fp ct k rn)"
proof (cases "split_subsets td fp ct rn")
  case (Inl e)
  then show ?thesis by (simp add: cleanup_redox_def)
next
  case (Inr dfs)
  obtain dr dt where "dfs = (dr, dt)" by (cases dfs)
  with Inr show ?thesis
    using hourly_reindex_outcome[of "coerce_redox p' k' dr" "coerce_redox p k dr"
            "coerce_temp p' dt" "coerce_temp p dt"]
    by (simp add: cleanup_redox_def)
qed

lemma reindex_coerced_cell:
  assumes r: "reindex (map_cells f df) ni = Inr out"
    and row: "(Timestamp x, row) \<in> set (entries df)"
    and x: "x \<in> set (map fst (entries out))"
    and j: "j < length row"
  shows "\<exists>row'. map_of (entries out) x = Some row' \<and> length row' = length row
           \<and> row' ! j = f (row ! j)"
proof -
  have "x \<in> set ni" using x reindex_Inr(3)[OF r] by simp
  then have "map_of (entries out) x = Some (map f row)"
    using reindex_present[OF r _ entry_map_cells[OF row]] by blast
  then show ?thesis using j by simp
qed

lemma first_index_None: "first_index P xs = None \<longleftrightarrow> (\<forall>x \<in> set xs. \<not> P x)"
  by (induction xs) auto

lemma select_window_Some:
  assumes "to_timestamp start_date = Some s" and "to_timestamp end_date = Some e"
  shows "select_window to_timestamp df start_date end_date
           = Inr (df\<lparr>entries := filter (\<lambda>(t, r). s < t \<and> t \<le> e) (entries df)\<rparr>)"
  using assms by (simp add: select_window_def)

lemma plot_nodes_xdata:
  "plot_nodes w nodes = Inr ls \<Longrightarrow> \<forall>l \<in> set ls. xdata l = map fst (entries w)"
proof (induction nodes arbitrary: ls)
  case Nil
  then show ?case by simp
next
  case (Cons node nodes)
  from Cons.prems obtain ys ls' where "plot_nodes w nodes = Inr ls'"
    and "ls = \<lparr>label = node, xdata = map fst (entries w), ydata = ys\<rparr> # ls'"
    by (auto simp: and_then_eq_Inr)
  with Cons.IH show ?case by simp
qed

lemma plot_temp_mean_xdata:
  assumes "select_window to_timestamp df start_date end_date = Inr w"
    and "plot_temp to_timestamp df nodes start_date end_date True = Inr ls"
  shows "\<forall>l \<in> set ls. xdata l = map fst (entries w)"
  using assms by (auto simp: plot_temp_def and_then_eq_Inr split: if_splits)






section \<open>Reading the file\<close>

text \<open>
  C6. A file that is no spreadsheet and that the delimited-text reader cannot parse should
  be reported to the caller as a format error. The code catches the reader's exception,
  builds the IOError and drops it; here, on an empty file, the call goes on to line 48 and
  ends with UnboundLocalError, the unbound name \<open>dataframe\<close>, and no format error.
\<close>

theorem cleanup_redox_unreadable_csv:
  "cleanup_redox example_datetime example_number ''measurements.dat'' (Some []) 200 []
     = Inl UnboundLocalError"
  by (simp add: cleanup_redox_def split_subsets_def and_then_def load_def read_csv_def
      endswith_def)



section \<open>The hourly index\<close>

text \<open>
  C10. When the cleaning returns, the redox table and the temperature table have the same
  time index: both subsets carry the one Time column of the frame, so the two hourly
  ranges of lines 79 and 80 are the same list.
\<close>

theorem cleanup_redox_same_index:
  assumes "cleanup_redox to_datetime parse file_path content correction rename = Inr (df_redox, df_temp)"
  shows "map fst (entries df_redox) = map fst (entries df_temp)"
proof -
  from cleanup_redox_indices[OF assms] obtain dr dt a b where
    "reindex (coerce_redox parse correction dr) (date_range a b) = Inr df_redox"
    "reindex (coerce_temp parse dt) (date_range a b) = Inr df_temp" by blast
  then show ?thesis using reindex_Inr(3) by metis
qed

theorem cleanup_redox_same_index_witness:
  "cleanup_redox example_datetime example_number ''measurements.dat'' (Some example_file) 200 []
     = Inr (\<lparr>labels = [''redox_raw_Avg(1)''],
             entries = [(1725148800000000000, [Num (- (101 / 2))]), (1725152400000000000, [NaN]),
                        (1725156000000000000, [NaN]), (1725159600000000000, [Num (- 51)])]\<rparr>,
            \<lparr>labels = [''temp_C_Avg(1)''],
             entries = [(1725148800000000000, [Num (73 / 4)]), (1725152400000000000, [Num 18]),
                        (1725156000000000000, [NaN]), (1725159600000000000, [NaN])]\<rparr>)
   \<and> map fst [(1725148800000000000 :: int, [Num (- (101 / 2))]), (1725152400000000000, [NaN]),
               (1725156000000000000, [NaN]), (1725159600000000000, [Num (- 51)])]
     = map fst [(1725148800000000000, [Num (73 / 4)]), (1725152400000000000, [Num 18]),
                (1725156000000000000, [NaN]), (1725159600000000000, [NaN])]"
proof -
  have h: "cleanup_redox example_datetime example_number ''measurements.dat'' (Some example_file) 200 []
     = Inr (\<lparr>labels = [''redox_raw_Avg(1)''],
             entries = [(1725148800000000000, [Num (- (101 / 2))]), (1725152400000000000, [NaN]),
                        (1725156000000000000, [NaN]), (1725159600000000000, [Num (- 51)])]\<rparr>,
            \<lparr>labels = [''temp_C_Avg(1)''],
             entries = [(1725148800000000000, [Num (73 / 4)]), (1725152400000000000, [Num 18]),
                        (1725156000000000000, [NaN]), (1725159600000000000, [NaN])]\<rparr>)"
    by code_simp
  show ?thesis using h cleanup_redox_same_index [OF h] by simp
qed

text \<open>
  C1, as the code has it. When the cleaning returns, both tables are indexed by the hourly
  range from the first observed time stamp \<open>a\<close> to the last observed one \<open>b\<close> (first and
  last in row order): strictly increasing, without duplicates, consecutive entries one hour
  apart. The range is empty when \<open>b\<close> is before \<open>a\<close>; otherwise it starts at \<open>a\<close> and ends
  at the last whole hour after \<open>a\<close> that is not after \<open>b\<close>, which is \<open>b\<close> itself when \<open>b - a\<close>
  is a whole number of hours.
\<close>

theorem cleanup_redox_hourly_index:
  assumes "cleanup_redox to_datetime parse file_path content correction rename = Inr (df_redox, df_temp)"
  shows "\<exists>dr dt a b. split_subsets to_datetime file_path content rename = Inr (dr, dt)
           \<and> map fst (entries dr) \<noteq> [] \<and> map fst (entries dt) = map fst (entries dr)
           \<and> hd (map fst (entries dr)) = Timestamp a \<and> last (map fst (entries dr)) = Timestamp b
           \<and> map fst (entries df_redox) = date_range a b
           \<and> map fst (entries df_temp) = date_range a b
           \<and> sorted_wrt (<) (date_range a b) \<and> distinct (date_range a b)
           \<and> (\<forall>i. Suc i < length (date_range a b)
                  \<longrightarrow> date_range a b ! Suc i = date_range a b ! i + hour)
           \<and> (b < a \<longrightarrow> date_range a b = [])
           \<and> (a \<le> b \<longrightarrow> hd (date_range a b) = a \<and> last (date_range a b) \<le> b
                          \<and> b < last (date_range a b) + hour)
           \<and> (a \<le> b \<and> (b - a) mod hour = 0 \<longrightarrow> last (date_range a b) = b)"
proof -
  from cleanup_redox_indices[OF assms] obtain dr dt a b where
    s: "split_subsets to_datetime file_path content rename = Inr (dr, dt)" and
    ne: "map fst (entries dr) \<noteq> []" and eq: "map fst (entries dt) = map fst (entries dr)" and
    a: "hd (map fst (entries dr)) = Timestamp a" and b: "last (map fst (entries dr)) = Timestamp b" and
    r: "reindex (coerce_redox parse correction dr) (date_range a b) = Inr df_redox" and
    t: "reindex (coerce_temp parse dt) (date_range a b) = Inr df_temp" by blast
  have step: "\<forall>i. Suc i < length (date_range a b)
                  \<longrightarrow> date_range a b ! Suc i = date_range a b ! i + hour"
    by (simp add: nth_date_range algebra_simps)
  have empty: "b < a \<longrightarrow> date_range a b = []" by (simp add: date_range_def)
  have span: "a \<le> b \<longrightarrow> hd (date_range a b) = a \<and> last (date_range a b) \<le> b
                          \<and> b < last (date_range a b) + hour"
    by (simp add: hd_date_range last_date_range_le last_date_range_gt)
  have exact: "a \<le> b \<and> (b - a) mod hour = 0 \<longrightarrow> last (date_range a b) = b"
    by (simp add: last_date_range_exact)
  show ?thesis
    using s ne eq a b reindex_Inr(3)[OF r] reindex_Inr(3)[OF t]
      sorted_date_range[of a b] distinct_date_range[of a b] step empty span exact
    by blast
qed

theorem cleanup_redox_hourly_index_witness:
  "cleanup_redox example_datetime example_number ''measurements.dat'' (Some example_file) 200 []
     = Inr (\<lparr>labels = [''redox_raw_Avg(1)''],
             entries = [(1725148800000000000, [Num (- (101 / 2))]), (1725152400000000000, [NaN]),
                        (1725156000000000000, [NaN]), (1725159600000000000, [Num (- 51)])]\<rparr>,
            \<lparr>labels = [''temp_C_Avg(1)''],
             entries = [(1725148800000000000, [Num (73 / 4)]), (1725152400000000000, [Num 18]),
                        (1725156000000000000, [NaN]), (1725159600000000000, [NaN])]\<rparr>)
   \<and> (\<exists>dr dt. split_subsets example_datetime ''measurements.dat'' (Some example_file) []
                 = Inr (dr, dt)
          \<and> hd (map fst (entries dr)) = Timestamp 1725148800000000000
          \<and> last (map fst (entries dr)) = Timestamp 1725159600000000000)
   \<and> date_range 1725148800000000000 1725159600000000000
     = [1725148800000000000, 1725152400000000000, 1725156000000000000, 1725159600000000000]"
proof -
  have h: "cleanup_redox example_datetime example_number ''measurements.dat'' (Some example_file) 200 []
     = Inr (\<lparr>labels = [''redox_raw_Avg(1)''],
             entries = [(1725148800000000000, [Num (- (101 / 2))]), (1725152400000000000, [NaN]),
                        (1725156000000000000, [NaN]), (1725159600000000000, [Num (- 51)])]\<rparr>,
            \<lparr>labels = [''temp_C_Avg(1)''],
             entries = [(1725148800000000000, [Num (73 / 4)]), (1725152400000000000, [Num 18]),
                        (1725156000000000000, [NaN]), (1725159600000000000, [NaN])]\<rparr>)"
    by code_simp
  from cleanup_redox_hourly_index [OF h] obtain dr dt a b where
    s: "split_subsets example_datetime ''measurements.dat'' (Some example_file) [] = Inr (dr, dt)"
    and a: "hd (map fst (entries dr)) = Timestamp a"
    and b: "last (map fst (entries dr)) = Timestamp b"
    and ix: "[1725148800000000000, 1725152400000000000, 1725156000000000000,
              1725159600000000000] = date_range a b"
    and span: "a \<le> b \<longrightarrow> hd (date_range a b) = a"
    and exact: "a \<le> b \<and> (b - a) mod hour = 0 \<longrightarrow> last (date_range a b) = b"
    by auto
  have s': "split_subsets example_datetime ''measurements.dat'' (Some example_file) []
     = Inr (\<lparr>labels = [''redox_raw_Avg(1)''],
             entries = [(Timestamp 1725148800000000000, [Str ''-250.5'']),
                        (Timestamp 1725152400000000000, [Str ''NAN'']),
                        (Timestamp 1725159600000000000, [Str ''-251''])]\<rparr>,
            \<lparr>labels = [''temp_C_Avg(1)''],
             entries = [(Timestamp 1725148800000000000, [Str ''18.25'']),
                        (Timestamp 1725152400000000000, [Str ''18'']),
                        (Timestamp 1725159600000000000, [NaN])]\<rparr>)"
    by code_simp
  from s s' a b have "a = 1725148800000000000" "b = 1725159600000000000" by auto
  with s a b ix h show ?thesis by auto
qed

text \<open>
  The index need not reach the last observed time stamp: in this file the last record is
  stamped 01:30, and both tables end at 01:00.
\<close>

theorem cleanup_redox_index_stops_short:
  "split_subsets example_datetime ''measurements.dat'' (Some example_late_file) []
     = Inr (\<lparr>labels = [''redox_raw_Avg(1)''],
             entries = [(Timestamp 1725148800000000000, [Str ''-250.5'']),
                        (Timestamp 1725154200000000000, [Str ''-251''])]\<rparr>,
            \<lparr>labels = [''temp_C_Avg(1)''],
             entries = [(Timestamp 1725148800000000000, [Str ''18.25'']),
                        (Timestamp 1725154200000000000, [Str ''18''])]\<rparr>)
   \<and> cleanup_redox example_datetime example_number ''measurements.dat'' (Some example_late_file)
         200 []
     = Inr (\<lparr>labels = [''redox_raw_Avg(1)''],
             entries = [(1725148800000000000, [Num (- (101 / 2))]),
                        (1725152400000000000, [NaN])]\<rparr>,
            \<lparr>labels = [''temp_C_Avg(1)''],
             entries = [(1725148800000000000, [Num (73 / 4)]),
                        (1725152400000000000, [NaN])]\<rparr>)"
  by code_simp




section \<open>Coercion and correction\<close>



text \<open>
  C4. A cell that is no number never makes the cleaning fail: whether the cleaning returns
  or raises, and which exception, does not depend on the number parser. When it returns, no
  cell of the two tables is a text, and a text cell that the parser rejects, in a row whose
  time stamp is in the table's index, is the missing-value marker at its place in the result.
\<close>

theorem cleanup_redox_coercion:
  "map_sum id (\<lambda>_. ()) (cleanup_redox to_datetime parse' file_path content correction rename)
     = map_sum id (\<lambda>_. ()) (cleanup_redox to_datetime parse file_path content correction rename)
   \<and> (\<forall>df_redox df_temp.
        cleanup_redox to_datetime parse file_path content correction rename = Inr (df_redox, df_temp)
        \<longrightarrow> (\<forall>(x, row) \<in> set (entries df_redox) \<union> set (entries df_temp). \<forall>s. Str s \<notin> set row)
          \<and> (\<exists>dr dt. split_subsets to_datetime file_path content rename = Inr (dr, dt)
               \<and> (\<forall>x row j s. (Timestamp x, row) \<in> set (entries dr) \<and> j < length row
                       \<and> row ! j = Str s \<and> parse s = None
                       \<and> x \<in> set (map fst (entries df_redox))
                     \<longrightarrow> (\<exists>row'. map_of (entries df_redox) x = Some row'
                            \<and> length row' = length row \<and> row' ! j = NaN))
               \<and> (\<forall>x row j s. (Timestamp x, row) \<in> set (entries dt) \<and> j < length row
                       \<and> row ! j = Str s \<and> parse s = None
                       \<and> x \<in> set (map fst (entries df_temp))
                     \<longrightarrow> (\<exists>row'. map_of (entries df_temp) x = Some row'
                            \<and> length row' = length row \<and> row' ! j = NaN))))"
proof (intro conjI allI impI)
  show "map_sum id (\<lambda>_. ()) (cleanup_redox to_datetime parse' file_path content correction rename)
     = map_sum id (\<lambda>_. ()) (cleanup_redox to_datetime parse file_path content correction rename)"
    by (rule cleanup_redox_outcome)
next
  fix df_redox df_temp
  assume h: "cleanup_redox to_datetime parse file_path content correction rename
               = Inr (df_redox, df_temp)"
  from cleanup_redox_indices[OF h] obtain dr dt a b where
    s: "split_subsets to_datetime file_path content rename = Inr (dr, dt)" and
    r: "reindex (coerce_redox parse correction dr) (date_range a b) = Inr df_redox" and
    t: "reindex (coerce_temp parse dt) (date_range a b) = Inr df_temp" by blast
  note r' = r[unfolded coerce_redox_eq] and t' = t[unfolded coerce_temp_eq]
  show "\<forall>(x, row) \<in> set (entries df_redox) \<union> set (entries df_temp). \<forall>s. Str s \<notin> set row"
  proof (intro ballI allI, clarify)
    fix x row s
    assume "(x, row) \<in> set (entries df_redox) \<union> set (entries df_temp)" and "Str s \<in> set row"
    then show False
      using reindex_map_cells_no_text[OF r', of x row s]
        reindex_map_cells_no_text[OF t', of x row s]
      by (auto simp: add_correction_not_Str to_numeric_not_Str)
  qed
  have redox: "\<forall>x row j s. (Timestamp x, row) \<in> set (entries dr) \<and> j < length row
                       \<and> row ! j = Str s \<and> parse s = None
                       \<and> x \<in> set (map fst (entries df_redox))
                     \<longrightarrow> (\<exists>row'. map_of (entries df_redox) x = Some row'
                            \<and> length row' = length row \<and> row' ! j = NaN)"
  proof (intro allI impI, elim conjE)
    fix x row j s
    assume "(Timestamp x, row) \<in> set (entries dr)" "j < length row" "row ! j = Str s"
      "parse s = None" "x \<in> set (map fst (entries df_redox))"
    then show "\<exists>row'. map_of (entries df_redox) x = Some row'
                            \<and> length row' = length row \<and> row' ! j = NaN"
      using reindex_coerced_cell[OF r', of x row j] by simp
  qed
  have temp: "\<forall>x row j s. (Timestamp x, row) \<in> set (entries dt) \<and> j < length row
                       \<and> row ! j = Str s \<and> parse s = None
                       \<and> x \<in> set (map fst (entries df_temp))
                     \<longrightarrow> (\<exists>row'. map_of (entries df_temp) x = Some row'
                            \<and> length row' = length row \<and> row' ! j = NaN)"
  proof (intro allI impI, elim conjE)
    fix x row j s
    assume "(Timestamp x, row) \<in> set (entries dt)" "j < length row" "row ! j = Str s"
      "parse s = None" "x \<in> set (map fst (entries df_temp))"
    then show "\<exists>row'. map_of (entries df_temp) x = Some row'
                            \<and> length row' = length row \<and> row' ! j = NaN"
      using reindex_coerced_cell[OF t', of x row j] by simp
  qed
  from s redox temp
  show "\<exists>dr dt. split_subsets to_datetime file_path content rename = Inr (dr, dt)
               \<and> (\<forall>x row j s. (Timestamp x, row) \<in> set (entries dr) \<and> j < length row
                       \<and> row ! j = Str s \<and> parse s = None
                       \<and> x \<in> set (map fst (entries df_redox))
                     \<longrightarrow> (\<exists>row'. map_of (entries df_redox) x = Some row'
                            \<and> length row' = length row \<and> row' ! j = NaN))
               \<and> (\<forall>x row j s. (Timestamp x, row) \<in> set (entries dt) \<and> j < length row
                       \<and> row ! j = Str s \<and> parse s = None
                       \<and> x \<in> set (map fst (entries df_temp))
                     \<longrightarrow> (\<exists>row'. map_of (entries df_temp) x = Some row'
                            \<and> length row' = length row \<and> row' ! j = NaN))"
    by (intro exI conjI)
qed


theorem cleanup_redox_coercion_witness:
  "cleanup_redox example_datetime example_number ''measurements.dat'' (Some example_file) 200 []
     = Inr (example_redox, example_temp)
   \<and> example_number ''NAN'' = None
   \<and> map_sum id (\<lambda>_. ())
         (cleanup_redox example_datetime (\<lambda>s. None) ''measurements.dat'' (Some example_file) 200 [])
       = Inr ()
   \<and> (\<exists>row'. map_of (entries example_redox) 1725152400000000000 = Some row'
           \<and> length row' = 1 \<and> row' ! 0 = NaN)"
proof -
  have h: "cleanup_redox example_datetime example_number ''measurements.dat'' (Some example_file)
             200 [] = Inr (example_redox, example_temp)"
    by code_simp
  have n: "example_number ''NAN'' = None"
    by code_simp
  have s': "split_subsets example_datetime ''measurements.dat'' (Some example_file) []
     = Inr (\<lparr>labels = [''redox_raw_Avg(1)''],
             entries = [(Timestamp 1725148800000000000, [Str ''-250.5'']),
                        (Timestamp 1725152400000000000, [Str ''NAN'']),
                        (Timestamp 1725159600000000000, [Str ''-251''])]\<rparr>,
            \<lparr>labels = [''temp_C_Avg(1)''],
             entries = [(Timestamp 1725148800000000000, [Str ''18.25'']),
                        (Timestamp 1725152400000000000, [Str ''18'']),
                        (Timestamp 1725159600000000000, [NaN])]\<rparr>)"
    by code_simp
  note t = cleanup_redox_coercion [of example_datetime "\<lambda>s. None" "''measurements.dat''"
             "Some example_file" 200 "[]" example_number]
  from t have o: "map_sum id (\<lambda>_. ())
         (cleanup_redox example_datetime (\<lambda>s. None) ''measurements.dat'' (Some example_file) 200 [])
       = Inr ()"
    by (simp add: h)
  from t h obtain dr dt where
    s: "split_subsets example_datetime ''measurements.dat'' (Some example_file) [] = Inr (dr, dt)"
    and c: "\<forall>x row j s. (Timestamp x, row) \<in> set (entries dr) \<and> j < length row
                       \<and> row ! j = Str s \<and> example_number s = None
                       \<and> x \<in> set (map fst (entries example_redox))
                     \<longrightarrow> (\<exists>row'. map_of (entries example_redox) x = Some row'
                            \<and> length row' = length row \<and> row' ! j = NaN)"
    by blast
  from s s' have dr: "dr = \<lparr>labels = [''redox_raw_Avg(1)''],
             entries = [(Timestamp 1725148800000000000, [Str ''-250.5'']),
                        (Timestamp 1725152400000000000, [Str ''NAN'']),
                        (Timestamp 1725159600000000000, [Str ''-251''])]\<rparr>"
    by simp
  have "(Timestamp 1725152400000000000, [Str ''NAN'']) \<in> set (entries dr)
        \<and> 0 < length [Str ''NAN''] \<and> [Str ''NAN''] ! 0 = Str ''NAN''
        \<and> example_number ''NAN'' = None
        \<and> 1725152400000000000 \<in> set (map fst (entries example_redox))"
    using n by (simp add: dr example_redox_def)
  with c have "\<exists>row'. map_of (entries example_redox) 1725152400000000000 = Some row'
                 \<and> length row' = length [Str ''NAN''] \<and> row' ! 0 = NaN"
    by blast
  with h n o show ?thesis by simp
qed

section \<open>Header row and first data row\<close>

text \<open>
  C5. On a parsed frame with no row whose first cell is the text TIMESTAMP, or whose header
  row has its RECORD column and no row holds the text 0 in that column, the cleaning ends
  with IndexError (the \<open>.index[0]\<close> of lines 48 and 50 on an empty selection) and returns
  no table.
\<close>

theorem cleanup_redox_no_marker_row:
  assumes "load file_path content = Inr dataframe"
    and "(\<forall>r \<in> set dataframe. cell_at r 0 \<noteq> Str ''TIMESTAMP'')
         \<or> (\<exists>header j. first_index (\<lambda>r. cell_at r 0 = Str ''TIMESTAMP'') dataframe = Some header
                \<and> label_positions (Str ''RECORD'') (dataframe ! header) = [j]
                \<and> (\<forall>r \<in> set dataframe. cell_at r j \<noteq> Str ''0''))"
  shows "cleanup_redox to_datetime parse file_path content correction rename = Inl IndexError"
proof -
  have "locate_data dataframe = Inl IndexError"
    using assms(2)
  proof
    assume "\<forall>r \<in> set dataframe. cell_at r 0 \<noteq> Str ''TIMESTAMP''"
    then have "first_index (\<lambda>r. cell_at r 0 = Str ''TIMESTAMP'') dataframe = None"
      by (simp add: first_index_None)
    then show ?thesis by (simp add: locate_data_def)
  next
    assume "\<exists>header j. first_index (\<lambda>r. cell_at r 0 = Str ''TIMESTAMP'') dataframe = Some header
                \<and> label_positions (Str ''RECORD'') (dataframe ! header) = [j]
                \<and> (\<forall>r \<in> set dataframe. cell_at r j \<noteq> Str ''0'')"
    then obtain header j where
      h: "first_index (\<lambda>r. cell_at r 0 = Str ''TIMESTAMP'') dataframe = Some header" and
      j: "label_positions (Str ''RECORD'') (dataframe ! header) = [j]" and
      n: "\<forall>r \<in> set dataframe. cell_at r j \<noteq> Str ''0''" by blast
    from n have "first_index (\<lambda>r. cell_at r j = Str ''0'') dataframe = None"
      by (simp add: first_index_None)
    with h j show ?thesis by (simp add: locate_data_def)
  qed
  with assms(1) show ?thesis
    by (simp add: cleanup_redox_def split_subsets_def)
qed

theorem cleanup_redox_no_marker_row_witness:
  "load ''measurements.dat'' (Some ([Str ''TOA5''] # example_rows)) = Inr example_rows
   \<and> first_index (\<lambda>r. cell_at r 0 = Str ''TIMESTAMP'') example_rows = None
   \<and> cleanup_redox example_datetime example_number ''measurements.dat''
         (Some ([Str ''TOA5''] # example_rows)) 200 [] = Inl IndexError
   \<and> load ''measurements.dat'' (Some (example_head @ tl example_rows))
       = Inr (tl example_head @ tl example_rows)
   \<and> first_index (\<lambda>r. cell_at r 0 = Str ''TIMESTAMP'') (tl example_head @ tl example_rows) = Some 0
   \<and> label_positions (Str ''RECORD'') ((tl example_head @ tl example_rows) ! 0) = [1]
   \<and> first_index (\<lambda>r. cell_at r 1 = Str ''0'') (tl example_head @ tl example_rows) = None
   \<and> cleanup_redox example_datetime example_number ''measurements.dat''
         (Some (example_head @ tl example_rows)) 200 [] = Inl IndexError"
proof -
  have l1: "load ''measurements.dat'' (Some ([Str ''TOA5''] # example_rows)) = Inr example_rows"
    by code_simp
  have f1: "first_index (\<lambda>r. cell_at r 0 = Str ''TIMESTAMP'') example_rows = None"
    by code_simp
  have l2: "load ''measurements.dat'' (Some (example_head @ tl example_rows))
              = Inr (tl example_head @ tl example_rows)"
    by code_simp
  have h2: "first_index (\<lambda>r. cell_at r 0 = Str ''TIMESTAMP'') (tl example_head @ tl example_rows)
              = Some 0"
    by code_simp
  have j2: "label_positions (Str ''RECORD'') ((tl example_head @ tl example_rows) ! 0) = [1]"
    by code_simp
  have f2: "first_index (\<lambda>r. cell_at r 1 = Str ''0'') (tl example_head @ tl example_rows) = None"
    by code_simp
  have n1: "\<forall>r \<in> set example_rows. cell_at r 0 \<noteq> Str ''TIMESTAMP''"
    using f1 by (simp add: first_index_None)
  have n2: "\<forall>r \<in> set (tl example_head @ tl example_rows). cell_at r 1 \<noteq> Str ''0''"
    using f2 by (simp only: first_index_None) 
  have c1: "cleanup_redox example_datetime example_number ''measurements.dat''
         (Some ([Str ''TOA5''] # example_rows)) 200 [] = Inl IndexError"
    using n1 by (intro cleanup_redox_no_marker_row [OF l1] disjI1)
  have c2: "cleanup_redox example_datetime example_number ''measurements.dat''
         (Some (example_head @ tl example_rows)) 200 [] = Inl IndexError"
    using h2 j2 n2 by (intro cleanup_redox_no_marker_row [OF l2] disjI2 exI conjI)
  show ?thesis using l1 f1 c1 l2 h2 j2 f2 c2 by (intro conjI)
qed

section \<open>The plots\<close>

text \<open>
  C8. With start and end dates that parse, the rows that plot\_redox and plot\_temp draw are
  exactly the rows of the table whose time stamp is after the start date and not after the
  end date, in the table's order: a row stamped exactly the start date is left out, a row
  stamped exactly the end date is kept (when the start is before the end), and every line
  drawn has these rows' time stamps as abscissae.
\<close>

theorem plot_window_half_open:
  assumes "to_timestamp start_date = Some s" and "to_timestamp end_date = Some e"
  shows "\<exists>w. select_window to_timestamp df start_date end_date = Inr w
           \<and> labels w = labels df
           \<and> entries w = filter (\<lambda>(t, r). s < t \<and> t \<le> e) (entries df)
           \<and> (\<forall>t r. (t, r) \<in> set (entries w) \<longleftrightarrow> (t, r) \<in> set (entries df) \<and> s < t \<and> t \<le> e)
           \<and> (\<forall>r. (s, r) \<notin> set (entries w))
           \<and> (\<forall>r. (e, r) \<in> set (entries df) \<and> s < e \<longrightarrow> (e, r) \<in> set (entries w))
           \<and> plot_redox to_timestamp df nodes start_date end_date = plot_nodes w nodes
           \<and> plot_temp to_timestamp df nodes start_date end_date False = plot_nodes w nodes
           \<and> (\<forall>ls. plot_nodes w nodes = Inr ls
                 \<longrightarrow> (\<forall>l \<in> set ls. xdata l = map fst (entries w)))
           \<and> (\<forall>ls. plot_temp to_timestamp df nodes start_date end_date True = Inr ls
                 \<longrightarrow> (\<forall>l \<in> set ls. xdata l = map fst (entries w)))"
proof -
  define w where "w = df\<lparr>entries := filter (\<lambda>(t, r). s < t \<and> t \<le> e) (entries df)\<rparr>"
  have sw: "select_window to_timestamp df start_date end_date = Inr w"
    unfolding w_def using assms by (rule select_window_Some)
  have l: "labels w = labels df" and en: "entries w = filter (\<lambda>(t, r). s < t \<and> t \<le> e) (entries df)"
    by (simp_all add: w_def)
  have mem: "\<forall>t r. (t, r) \<in> set (entries w) \<longleftrightarrow> (t, r) \<in> set (entries df) \<and> s < t \<and> t \<le> e"
    by (simp add: en)
  have lo: "\<forall>r. (s, r) \<notin> set (entries w)" by (simp add: en)
  have hi: "\<forall>r. (e, r) \<in> set (entries df) \<and> s < e \<longrightarrow> (e, r) \<in> set (entries w)"
    by (simp add: en)
  have pr: "plot_redox to_timestamp df nodes start_date end_date = plot_nodes w nodes"
    by (simp add: plot_redox_def sw)
  have pt: "plot_temp to_timestamp df nodes start_date end_date False = plot_nodes w nodes"
    by (simp add: plot_temp_def sw)
  have x1: "\<forall>ls. plot_nodes w nodes = Inr ls \<longrightarrow> (\<forall>l \<in> set ls. xdata l = map fst (entries w))"
    using plot_nodes_xdata by blast
  have x2: "\<forall>ls. plot_temp to_timestamp df nodes start_date end_date True = Inr ls
                 \<longrightarrow> (\<forall>l \<in> set ls. xdata l = map fst (entries w))"
    using plot_temp_mean_xdata[OF sw] by blast
  from sw l en mem lo hi pr pt x1 x2 show ?thesis by (intro exI[of _ w] conjI)
qed

theorem plot_window_half_open_witness:
  "example_timestamp ''2024-09-01'' = Some 1725148800000000000
   \<and> example_timestamp ''2024-09-01 03:00:00'' = Some 1725159600000000000
   \<and> (\<exists>w. select_window example_timestamp example_temp ''2024-09-01'' ''2024-09-01 03:00:00''
             = Inr w
          \<and> entries w = [(1725152400000000000, [Num 18]), (1725156000000000000, [NaN]),
                          (1725159600000000000, [NaN])]
          \<and> plot_redox example_timestamp example_temp [''temp_C_Avg(1)''] ''2024-09-01''
               ''2024-09-01 03:00:00'' = plot_nodes w [''temp_C_Avg(1)''])"
proof -
  have s: "example_timestamp ''2024-09-01'' = Some 1725148800000000000"
    by code_simp
  have e: "example_timestamp ''2024-09-01 03:00:00'' = Some 1725159600000000000"
    by code_simp
  have f: "filter (\<lambda>(t, r). 1725148800000000000 < t \<and> t \<le> 1725159600000000000)
             (entries example_temp)
           = [(1725152400000000000, [Num 18]), (1725156000000000000, [NaN]),
              (1725159600000000000, [NaN])]"
    by (simp add: example_temp_def)
  from plot_window_half_open [where to_timestamp = example_timestamp
         and start_date = "''2024-09-01''" and end_date = "''2024-09-01 03:00:00''"
         and df = example_temp and nodes = "[''temp_C_Avg(1)'']", OF s e] f s e
  show ?thesis by auto
qed



end
